theory Spec2Isabelle
  imports Complex_Main
begin

section \<open>Numbers of the script: numpy float64 values\<close>

text \<open>
  Every number the script computes with is a numpy \<open>float64\<close>. The model keeps the
  special values of IEEE 754 (the two infinities and NaN) and takes a finite value to be
  the real number it stands for: rounding, overflow of finite results and the sign of
  zero are left out (\<open>Fin 0\<close> stands for \<open>0.0\<close>, so a
  quotient by zero has the sign it has for \<open>+0.0\<close>). numpy does not raise on a division
  by zero or on an invalid operation: it emits a RuntimeWarning and stores the special
  value, which is what the operations below return.
\<close>

datatype npfloat = Fin real | PInf | NInf | NaN

fun np_neg :: "npfloat \<Rightarrow> npfloat" where
  "np_neg (Fin a) = Fin (- a)"
| "np_neg PInf = NInf"
| "np_neg NInf = PInf"
| "np_neg NaN = NaN"

fun np_add :: "npfloat \<Rightarrow> npfloat \<Rightarrow> npfloat" where
  "np_add NaN _ = NaN"
| "np_add _ NaN = NaN"
| "np_add (Fin a) (Fin b) = Fin (a + b)"
| "np_add (Fin a) y = y"
| "np_add x (Fin b) = x"
| "np_add PInf PInf = PInf"
| "np_add NInf NInf = NInf"
| "np_add PInf NInf = NaN"
| "np_add NInf PInf = NaN"

definition np_sub :: "npfloat \<Rightarrow> npfloat \<Rightarrow> npfloat" where
  "np_sub x y = np_add x (np_neg y)"

text \<open>The sign of a value, for the products and quotients with an infinity.\<close>

fun np_sgn :: "npfloat \<Rightarrow> real" where
  "np_sgn (Fin a) = sgn a"
| "np_sgn PInf = 1"
| "np_sgn NInf = - 1"
| "np_sgn NaN = 0"

definition signed_inf :: "real \<Rightarrow> npfloat" where
  "signed_inf s = (if s = 0 then NaN else if 0 < s then PInf else NInf)"

fun np_mul :: "npfloat \<Rightarrow> npfloat \<Rightarrow> npfloat" where
  "np_mul NaN _ = NaN"
| "np_mul _ NaN = NaN"
| "np_mul (Fin a) (Fin b) = Fin (a * b)"
| "np_mul x y = signed_inf (np_sgn x * np_sgn y)"

fun np_div :: "npfloat \<Rightarrow> npfloat \<Rightarrow> npfloat" where
  "np_div NaN _ = NaN"
| "np_div _ NaN = NaN"
| "np_div (Fin a) (Fin b) = (if b = 0 then signed_inf (sgn a) else Fin (a / b))"
| "np_div (Fin a) y = Fin 0"
| "np_div x (Fin b) = signed_inf (np_sgn x * (if b < 0 then - 1 else 1))"
| "np_div x y = NaN"

definition is_finite :: "npfloat \<Rightarrow> bool" where
  "is_finite x = (case x of Fin _ \<Rightarrow> True | _ \<Rightarrow> False)"

section \<open>The percentage difference (lines 187, 194, 201 and 278, 284, 290)\<close>

text \<open>
  The arithmetic operators of two one-dimensional arrays work element by element after
  broadcasting: arrays of the same length are paired index by index, an array of length
  one is stretched to the length of the other one, and any other pair of lengths raises
  numpy's \<open>ValueError\<close> (operands could not be broadcast together).
\<close>

datatype np_error = ValueError

definition broadcast :: "(npfloat \<Rightarrow> npfloat \<Rightarrow> npfloat) \<Rightarrow> npfloat list \<Rightarrow> npfloat list
    \<Rightarrow> np_error + npfloat list" where
  "broadcast f xs ys =
     (if length xs = length ys then Inr (map2 f xs ys)
      else if length xs = 1 then Inr (map (f (hd xs)) ys)
      else if length ys = 1 then Inr (map (\<lambda>x. f x (hd ys)) xs)
      else Inl ValueError)"

text \<open>
  \<open>diff = (Tb_hubble[h] - Tb_std) / Tb_std * 100\<close>: the subtraction, then the division by
  the baseline array, then the product with the scalar 100.
\<close>

definition deviation :: "npfloat list \<Rightarrow> npfloat list \<Rightarrow> np_error + npfloat list" where
  "deviation series baseline =
     (case broadcast np_sub series baseline of
        Inl e \<Rightarrow> Inl e
      | Inr d \<Rightarrow>
          (case broadcast np_div d baseline of
             Inl e \<Rightarrow> Inl e
           | Inr q \<Rightarrow> Inr (map (\<lambda>x. np_mul x (Fin 100)) q)))"

text \<open>
  The same expression on two scalars, as in the summary at the last redshift:
  \<open>diff = (Tb_hubble[h][-1] - Tb_std[-1]) / Tb_std[-1] * 100\<close>.
\<close>

definition scalar_diff :: "npfloat \<Rightarrow> npfloat \<Rightarrow> npfloat" where
  "scalar_diff v b = np_mul (np_div (np_sub v b) b) (Fin 100)"

section \<open>The external simulation and the mean temperature (lines 19 to 23)\<close>

text \<open>
  \<open>std_params\<close> is a dictionary with the three keys below. \<open>T_b\<close> is not defined in the
  script: it is the external simulation, called with the keyword arguments \<open>box\<close>,
  \<open>redshift\<close>, \<open>hubble\<close>, \<open>matter\<close> and \<open>baryon\<close>. It is a parameter of the model: a function
  from the arguments of a call to the exception it raises or to the flattened
  \<open>brightness_temp\<close> field of the object it returns.
\<close>

record params =
  hubble :: real
  matter :: real
  baryon :: real

record call = params +
  box :: int
  redshift :: real

type_synonym 'e simulation = "call \<Rightarrow> 'e + npfloat list"

text \<open>
  \<open>np.mean\<close> of all the elements: their sum divided by their number. On an empty array
  this is \<open>0.0 / 0\<close>, which numpy evaluates to NaN with a warning.
\<close>

definition np_sum :: "npfloat list \<Rightarrow> npfloat" where
  "np_sum xs = foldl np_add (Fin 0) xs"

definition np_mean :: "npfloat list \<Rightarrow> npfloat" where
  "np_mean xs = np_div (np_sum xs) (Fin (real (length xs)))"

text \<open>
  \<open>calculate_mean_temperature\<close> calls \<open>T_b\<close> with \<open>box=50\<close> and returns the mean of the
  field. The history of the calls made to \<open>T_b\<close> is threaded through: the call is
  appended to it whether \<open>T_b\<close> returns or raises. \<open>kwargs\<close> is the argument list
  \<open>box=50, redshift=redshift, hubble=hubble, matter=matter, baryon=baryon\<close> of the call.
\<close>

definition kwargs :: "real \<Rightarrow> real \<Rightarrow> real \<Rightarrow> real \<Rightarrow> call" where
  "kwargs zr h m b = \<lparr>hubble = h, matter = m, baryon = b, box = 50, redshift = zr\<rparr>"

definition calculate_mean_temperature ::
    "'e simulation \<Rightarrow> real \<Rightarrow> real \<Rightarrow> real \<Rightarrow> real \<Rightarrow> call list \<Rightarrow> call list \<times> ('e + npfloat)" where
  "calculate_mean_temperature T_b zr h m b history =
     (history @ [kwargs zr h m b],
      case T_b (kwargs zr h m b) of Inl e \<Rightarrow> Inl e | Inr bt \<Rightarrow> Inr (np_mean bt))"

section \<open>Configuration (lines 5 to 17)\<close>

text \<open>\<open>np.linspace(start, stop, num)\<close> with the end point included.\<close>

definition linspace :: "real \<Rightarrow> real \<Rightarrow> nat \<Rightarrow> real list" where
  "linspace start stop num =
     (if num \<le> 1 then replicate num start
      else map (\<lambda>i. start + real i * ((stop - start) / real (num - 1))) [0..<num])"

definition z :: "real list" where
  "z = linspace 30 5 30"

definition std_params :: params where
  "std_params = \<lparr>hubble = 69 / 100, matter = 31 / 100, baryon = 2 / 100\<rparr>"

definition hubble_variations :: "real list" where
  "hubble_variations = [67 / 100, 69 / 100, 71 / 100]"

definition matter_variations :: "real list" where
  "matter_variations = [29 / 100, 31 / 100, 33 / 100]"

definition baryon_variations :: "real list" where
  "baryon_variations = [18 / 1000, 2 / 100, 22 / 1000]"

section \<open>The sweeps (lines 28 to 81)\<close>

text \<open>
  A series is first a Python list that grows by \<open>append\<close>, and becomes a numpy array
  (\<open>np.array\<close>) once its loop over the redshifts has finished.
\<close>

datatype series = PyList "npfloat list" | NdArray "npfloat list"

text \<open>
  The module's variables, and the history of the calls to \<open>T_b\<close>. A variable that is not
  bound yet is \<open>None\<close>; a dictionary is a map from its keys.
\<close>

record state =
  calls :: "call list"
  Tb_std :: "series option"
  Tb_hubble :: "real \<rightharpoonup> series"
  Tb_matter :: "real \<rightharpoonup> series"
  Tb_baryon :: "real \<rightharpoonup> series"

definition initial :: state where
  "initial = \<lparr>calls = [], Tb_std = None, Tb_hubble = Map.empty, Tb_matter = Map.empty,
     Tb_baryon = Map.empty\<rparr>"

text \<open>
  The four loops over the redshifts have the same body,
  \<open>for i, redshift in enumerate(z): xs.append(calculate_mean_temperature(redshift, h, m, b))\<close>
  (the \<open>print\<close> calls are left out), and differ in the list \<open>xs\<close> they append to and in the
  three arguments. \<open>sweep_loop\<close> is that loop over the redshifts still to visit, with the
  list as it is so far. An exception of \<open>T_b\<close> leaves the loop at once; the list keeps the
  elements appended before, since Python undoes nothing when an exception is raised.
\<close>

fun sweep_loop :: "'e simulation \<Rightarrow> real list \<Rightarrow> real \<Rightarrow> real \<Rightarrow> real \<Rightarrow> npfloat list \<Rightarrow> call list
    \<Rightarrow> (npfloat list \<times> call list) \<times> 'e option" where
  "sweep_loop T_b [] h m b xs history = ((xs, history), None)"
| "sweep_loop T_b (zr # rest) h m b xs history =
     (case calculate_mean_temperature T_b zr h m b history of
        (history', Inl e) \<Rightarrow> ((xs, history'), Some e)
      | (history', Inr v) \<Rightarrow> sweep_loop T_b rest h m b (xs @ [v]) history')"

text \<open>
  Lines 30 to 37: \<open>Tb_std = []\<close>, the loop, \<open>Tb_std = np.array(Tb_std)\<close>. The grid and the
  standard parameters are arguments; the script passes \<open>z\<close> and \<open>std_params\<close>.
\<close>

definition std_sweep :: "'e simulation \<Rightarrow> real list \<Rightarrow> params \<Rightarrow> state \<Rightarrow> state \<times> 'e option" where
  "std_sweep T_b grid p s =
     (case sweep_loop T_b grid (hubble p) (matter p) (baryon p) [] (calls s) of
        ((xs, history), Some e) \<Rightarrow> (s\<lparr>calls := history, Tb_std := Some (PyList xs)\<rparr>, Some e)
      | ((xs, history), None) \<Rightarrow> (s\<lparr>calls := history, Tb_std := Some (NdArray xs)\<rparr>, None))"

text \<open>
  Lines 42 to 51, 56 to 66 and 71 to 81: for each value of the varied parameter,
  \<open>Tb_hubble[h] = []\<close>, the loop over the redshifts with the other two parameters taken
  from \<open>std_params\<close>, then \<open>Tb_hubble[h] = np.array(Tb_hubble[h])\<close>.
\<close>

fun hubble_sweep :: "'e simulation \<Rightarrow> real list \<Rightarrow> params \<Rightarrow> real list \<Rightarrow> state \<Rightarrow> state \<times> 'e option" where
  "hubble_sweep T_b grid p [] s = (s, None)"
| "hubble_sweep T_b grid p (h # hs) s =
     (case sweep_loop T_b grid h (matter p) (baryon p) [] (calls s) of
        ((xs, history), Some e) \<Rightarrow>
          (s\<lparr>calls := history, Tb_hubble := (Tb_hubble s)(h \<mapsto> PyList xs)\<rparr>, Some e)
      | ((xs, history), None) \<Rightarrow>
          hubble_sweep T_b grid p hs
            (s\<lparr>calls := history, Tb_hubble := (Tb_hubble s)(h \<mapsto> NdArray xs)\<rparr>))"

fun matter_sweep :: "'e simulation \<Rightarrow> real list \<Rightarrow> params \<Rightarrow> real list \<Rightarrow> state \<Rightarrow> state \<times> 'e option" where
  "matter_sweep T_b grid p [] s = (s, None)"
| "matter_sweep T_b grid p (m # ms) s =
     (case sweep_loop T_b grid (hubble p) m (baryon p) [] (calls s) of
        ((xs, history), Some e) \<Rightarrow>
          (s\<lparr>calls := history, Tb_matter := (Tb_matter s)(m \<mapsto> PyList xs)\<rparr>, Some e)
      | ((xs, history), None) \<Rightarrow>
          matter_sweep T_b grid p ms
            (s\<lparr>calls := history, Tb_matter := (Tb_matter s)(m \<mapsto> NdArray xs)\<rparr>))"

fun baryon_sweep :: "'e simulation \<Rightarrow> real list \<Rightarrow> params \<Rightarrow> real list \<Rightarrow> state \<Rightarrow> state \<times> 'e option" where
  "baryon_sweep T_b grid p [] s = (s, None)"
| "baryon_sweep T_b grid p (b # bs) s =
     (case sweep_loop T_b grid (hubble p) (matter p) b [] (calls s) of
        ((xs, history), Some e) \<Rightarrow>
          (s\<lparr>calls := history, Tb_baryon := (Tb_baryon s)(b \<mapsto> PyList xs)\<rparr>, Some e)
      | ((xs, history), None) \<Rightarrow>
          baryon_sweep T_b grid p bs
            (s\<lparr>calls := history, Tb_baryon := (Tb_baryon s)(b \<mapsto> NdArray xs)\<rparr>))"

text \<open>
  The computing part of the script, lines 28 to 81, from the first statement to the last
  sweep: each block runs when the one before has finished without an exception.
\<close>

definition study :: "'e simulation \<Rightarrow> real list \<Rightarrow> params \<Rightarrow> real list \<Rightarrow> real list \<Rightarrow> real list
    \<Rightarrow> state \<times> 'e option" where
  "study T_b grid p hs ms bs =
     (case std_sweep T_b grid p initial of
        (s1, Some e) \<Rightarrow> (s1, Some e)
      | (s1, None) \<Rightarrow>
          (case hubble_sweep T_b grid p hs (s1\<lparr>Tb_hubble := Map.empty\<rparr>) of
             (s2, Some e) \<Rightarrow> (s2, Some e)
           | (s2, None) \<Rightarrow>
               (case matter_sweep T_b grid p ms (s2\<lparr>Tb_matter := Map.empty\<rparr>) of
                  (s3, Some e) \<Rightarrow> (s3, Some e)
                | (s3, None) \<Rightarrow> baryon_sweep T_b grid p bs (s3\<lparr>Tb_baryon := Map.empty\<rparr>))))"

definition script :: "'e simulation \<Rightarrow> state \<times> 'e option" where
  "script T_b = study T_b z std_params hubble_variations matter_variations baryon_variations"

section \<open>Properties of the percentage difference\<close>

lemma deviation_same_length:
  "length series = length baseline \<Longrightarrow>
   deviation series baseline = Inr (map2 scalar_diff series baseline)"
  by (simp add: deviation_def broadcast_def scalar_diff_def map2_map_map zip_map1
      split_def map_zip_map list_eq_iff_nth_eq)

lemma deviation_left_one:
  "length series = 1 \<Longrightarrow> length baseline \<noteq> 1 \<Longrightarrow>
   deviation series baseline = Inr (map (scalar_diff (hd series)) baseline)"
  by (simp add: deviation_def broadcast_def scalar_diff_def list_eq_iff_nth_eq)

lemma deviation_right_one:
  "length baseline = 1 \<Longrightarrow> length series \<noteq> 1 \<Longrightarrow>
   deviation series baseline = Inr (map (\<lambda>x. scalar_diff x (hd baseline)) series)"
  by (simp add: deviation_def broadcast_def scalar_diff_def list_eq_iff_nth_eq)

lemma deviation_mismatch:
  "length series \<noteq> length baseline \<Longrightarrow> length series \<noteq> 1 \<Longrightarrow> length baseline \<noteq> 1 \<Longrightarrow>
   deviation series baseline = Inl ValueError"
  by (simp add: deviation_def broadcast_def)



lemma scalar_diff_zero_baseline:
  "\<not> is_finite (scalar_diff v (Fin 0))"
  by (cases v) (auto simp: scalar_diff_def np_sub_def is_finite_def signed_inf_def sgn_real_def)

lemma scalar_diff_zero_zero: "scalar_diff (Fin 0) (Fin 0) = NaN"
  by (simp add: scalar_diff_def np_sub_def signed_inf_def)





text \<open>
  A zero in the baseline raises nothing, in the arrays as in the scalars of the summary:
  the quotient is an infinity, or NaN where the numerator is zero as well, and the other
  elements are computed as usual.
\<close>

theorem deviation_zero_baseline_counterexample:
  "deviation [Fin 12, Fin 0, Fin 11] [Fin 0, Fin 0, Fin 10] = Inr [PInf, NaN, Fin 10] \<and>
   scalar_diff (Fin 12) (Fin 0) = PInf"
  by (simp add: deviation_def broadcast_def scalar_diff_def np_sub_def signed_inf_def)

text \<open>
  C3, as the script behaves: for a series and a baseline of the same length, a baseline
  value that is exactly zero at index \<open>i\<close> does not make the percentage difference fail.
  The whole result is computed, and its element at \<open>i\<close> is not a finite number: it is an
  infinity, or NaN when the value of the series at \<open>i\<close> is zero too. The same holds
  for the difference of two scalars in the summary. The script has no
  DivisionByZeroError.
\<close>

theorem deviation_zero_baseline:
  assumes "length series = length baseline"
    and "i < length baseline"
    and "baseline ! i = Fin 0"
  shows "\<exists>d. deviation series baseline = Inr d \<and> length d = length baseline \<and>
           \<not> is_finite (d ! i) \<and> (series ! i = Fin 0 \<longrightarrow> d ! i = NaN) \<and>
           (\<forall>j<length baseline. d ! j = scalar_diff (series ! j) (baseline ! j)) \<and>
           (\<forall>v. \<not> is_finite (scalar_diff v (baseline ! i)))"
proof -
  let ?d = "map2 scalar_diff series baseline"
  have eq: "deviation series baseline = Inr ?d"
    using assms(1) by (rule deviation_same_length)
  have pt: "?d ! j = scalar_diff (series ! j) (baseline ! j)" if "j < length baseline" for j
    using that assms(1) by simp
  have at_i: "?d ! i = scalar_diff (series ! i) (Fin 0)"
    using pt [OF assms(2)] assms(3) by simp
  have nonfin: "\<not> is_finite (?d ! i)"
    unfolding at_i by (rule scalar_diff_zero_baseline)
  have nan: "?d ! i = NaN" if "series ! i = Fin 0"
    unfolding at_i that by (rule scalar_diff_zero_zero)
  have len: "length ?d = length baseline" using assms(1) by simp
  have sc: "\<forall>v. \<not> is_finite (scalar_diff v (baseline ! i))"
    unfolding assms(3) by (simp add: scalar_diff_zero_baseline)
  from eq len nonfin nan pt sc show ?thesis by blast
qed

theorem deviation_zero_baseline_witness:
  "\<exists>d. deviation [Fin 12, Fin 0] [Fin 0, Fin 0] = Inr d \<and> d ! 1 = NaN \<and> \<not> is_finite (d ! 0)"
proof -
  have h1: "length [Fin 12, Fin 0] = length [Fin 0 :: npfloat, Fin 0]" by simp
  have h2: "1 < length [Fin 0 :: npfloat, Fin 0]" and h2': "0 < length [Fin 0 :: npfloat, Fin 0]" by simp_all
  have h3: "[Fin 0 :: npfloat, Fin 0] ! 1 = Fin 0" and h3': "[Fin 0 :: npfloat, Fin 0] ! 0 = Fin 0" by simp_all
  from deviation_zero_baseline [OF h1 h2 h3] obtain d
    where d: "deviation [Fin 12, Fin 0] [Fin 0, Fin 0] = Inr d"
      and n: "[Fin 12, Fin 0] ! 1 = Fin 0 \<longrightarrow> d ! 1 = NaN"
    by blast
  from deviation_zero_baseline [OF h1 h2' h3'] d have "\<not> is_finite (d ! 0)"
    by auto
  moreover from n have "d ! 1 = NaN" by simp
  ultimately show ?thesis using d by blast
qed

text \<open>
  An array of one element is broadcast against a longer one: the lengths differ and a
  result is produced.
\<close>

theorem deviation_length_mismatch_counterexample:
  "length [Fin 12] \<noteq> length [Fin 10, Fin 10, Fin 10] \<and>
   deviation [Fin 12] [Fin 10, Fin 10, Fin 10] = Inr [Fin 20, Fin 20, Fin 20]"
  by (simp add: deviation_def broadcast_def np_sub_def)

text \<open>
  C4, as the script behaves: for a series and a baseline whose lengths differ, the
  percentage difference raises numpy's \<open>ValueError\<close> (the script has no AlignmentError),
  unless one of the two has exactly one element: that one is then broadcast against the
  other, and a result of the other's length is produced.
\<close>

theorem deviation_length_mismatch:
  assumes "length series \<noteq> length baseline"
  shows "deviation series baseline =
     (if length series = 1 then Inr (map (scalar_diff (hd series)) baseline)
      else if length baseline = 1 then Inr (map (\<lambda>x. scalar_diff x (hd baseline)) series)
      else Inl ValueError)"
proof (cases "length series = 1")
  case True
  with assms have "length baseline \<noteq> 1" by simp
  with True show ?thesis by (simp add: deviation_left_one)
next
  case False
  then show ?thesis using assms
    by (cases "length baseline = 1") (simp_all add: deviation_right_one deviation_mismatch)
qed

theorem deviation_length_mismatch_witness:
  "deviation [Fin 1, Fin 2] [Fin 1, Fin 2, Fin 3] = Inl ValueError"
proof -
  have h: "length [Fin 1, Fin 2] \<noteq> length [Fin 1, Fin 2, Fin 3]" by simp
  from deviation_length_mismatch [OF h] show ?thesis by simp
qed

section \<open>Properties of the mean temperature\<close>













section \<open>Properties of the loop over the redshifts\<close>

text \<open>
  The loop in closed form: it appends the means of the redshifts before the first one at
  which \<open>T_b\<close> raises, the history grows by the calls up to that one included, and the
  exception of that call, if there is one, is the exception of the loop.
\<close>

lemma sweep_loop_eq:
  "sweep_loop T_b g h m b xs history =
     ((xs @ map (\<lambda>zr. np_mean (projr (T_b (kwargs zr h m b))))
              (takeWhile (\<lambda>zr. \<not> isl (T_b (kwargs zr h m b))) g),
       history @ map (\<lambda>zr. kwargs zr h m b)
              (take (Suc (length (takeWhile (\<lambda>zr. \<not> isl (T_b (kwargs zr h m b))) g))) g)),
      (case dropWhile (\<lambda>zr. \<not> isl (T_b (kwargs zr h m b))) g of
         [] \<Rightarrow> None
       | zf # _ \<Rightarrow> Some (projl (T_b (kwargs zf h m b)))))"
proof (induction g arbitrary: xs history)
  case Nil
  show ?case by simp
next
  case (Cons zr rest)
  show ?case
  proof (cases "T_b (kwargs zr h m b)")
    case (Inl e)
    then show ?thesis by (simp add: calculate_mean_temperature_def)
  next
    case (Inr bt)
    then show ?thesis by (simp add: calculate_mean_temperature_def Cons.IH)
  qed
qed

lemma sweep_loop_ok:
  assumes "\<forall>zr\<in>set g. \<not> isl (T_b (kwargs zr h m b))"
  shows "sweep_loop T_b g h m b xs history =
     ((xs @ map (\<lambda>zr. np_mean (projr (T_b (kwargs zr h m b)))) g,
       history @ map (\<lambda>zr. kwargs zr h m b) g), None)"
proof -
  have tw: "takeWhile (\<lambda>zr. \<not> isl (T_b (kwargs zr h m b))) g = g"
    using assms by (simp add: takeWhile_eq_all_conv)
  have dw: "dropWhile (\<lambda>zr. \<not> isl (T_b (kwargs zr h m b))) g = []"
    using assms by simp
  show ?thesis unfolding sweep_loop_eq tw dw by simp
qed

lemma sweep_loop_fail:
  assumes "\<forall>zr\<in>set pre. \<not> isl (T_b (kwargs zr h m b))"
    and "T_b (kwargs zf h m b) = Inl e"
  shows "sweep_loop T_b (pre @ zf # post) h m b xs history =
     ((xs @ map (\<lambda>zr. np_mean (projr (T_b (kwargs zr h m b)))) pre,
       history @ map (\<lambda>zr. kwargs zr h m b) (pre @ [zf])), Some e)"
proof -
  have tw: "takeWhile (\<lambda>zr. \<not> isl (T_b (kwargs zr h m b))) (pre @ zf # post) = pre"
    using assms by (simp add: takeWhile_append2)
  have dw: "dropWhile (\<lambda>zr. \<not> isl (T_b (kwargs zr h m b))) (pre @ zf # post) = zf # post"
    using assms by (simp add: dropWhile_append2)
  show ?thesis unfolding sweep_loop_eq tw dw using assms(2) by simp
qed

lemma sweep_loop_calls:
  "\<exists>k\<le>length g. snd (fst (sweep_loop T_b g h m b xs history)) =
      history @ map (\<lambda>zr. kwargs zr h m b) (take k g)"
proof (cases "Suc (length (takeWhile (\<lambda>zr. \<not> isl (T_b (kwargs zr h m b))) g)) \<le> length g")
  case True
  then show ?thesis unfolding sweep_loop_eq by (intro exI conjI) (assumption, simp)
next
  case False
  then show ?thesis unfolding sweep_loop_eq by (intro exI [of _ "length g"]) simp
qed

text \<open>
  What a loop over the redshifts adds to the history: calls with its own arguments.
\<close>

lemma sweep_loop_new_calls:
  obtains new where "snd (fst (sweep_loop T_b g h m b xs history)) = history @ new"
    and "\<forall>c\<in>set new. box c = 50 \<and> redshift c \<in> set g \<and> hubble c = h \<and> matter c = m \<and> baryon c = b"
proof -
  from sweep_loop_calls [of g T_b h m b xs history] obtain k
    where k: "snd (fst (sweep_loop T_b g h m b xs history)) =
      history @ map (\<lambda>zr. kwargs zr h m b) (take k g)"
    by blast
  have "\<forall>c\<in>set (map (\<lambda>zr. kwargs zr h m b) (take k g)).
      box c = 50 \<and> redshift c \<in> set g \<and> hubble c = h \<and> matter c = m \<and> baryon c = b"
    by (auto simp: kwargs_def dest: in_set_takeD)
  with k show ?thesis by (rule that)
qed

section \<open>The calls made by the sweeps\<close>

lemma std_sweep_calls:
  "\<exists>new. calls (fst (std_sweep T_b g p s)) = calls s @ new \<and>
     (\<forall>c\<in>set new. box c = 50 \<and> redshift c \<in> set g \<and>
        hubble c = hubble p \<and> matter c = matter p \<and> baryon c = baryon p)"
proof -
  obtain new where n: "snd (fst (sweep_loop T_b g (hubble p) (matter p) (baryon p) [] (calls s)))
      = calls s @ new"
    and a: "\<forall>c\<in>set new. box c = 50 \<and> redshift c \<in> set g \<and>
        hubble c = hubble p \<and> matter c = matter p \<and> baryon c = baryon p"
    by (rule sweep_loop_new_calls)
  from n have "calls (fst (std_sweep T_b g p s)) = calls s @ new"
    by (auto simp: std_sweep_def split: prod.splits option.splits)
  with a show ?thesis by blast
qed

lemma hubble_sweep_calls:
  "\<exists>new. calls (fst (hubble_sweep T_b g p hs s)) = calls s @ new \<and>
     (\<forall>c\<in>set new. box c = 50 \<and> redshift c \<in> set g \<and>
        hubble c \<in> set hs \<and> matter c = matter p \<and> baryon c = baryon p)"
proof (induction hs arbitrary: s)
  case Nil
  show ?case by simp
next
  case (Cons h hs)
  obtain new where n: "snd (fst (sweep_loop T_b g h (matter p) (baryon p) [] (calls s)))
      = calls s @ new"
    and a: "\<forall>c\<in>set new. box c = 50 \<and> redshift c \<in> set g \<and>
        hubble c = h \<and> matter c = matter p \<and> baryon c = baryon p"
    by (rule sweep_loop_new_calls)
  obtain xs history r where sl:
    "sweep_loop T_b g h (matter p) (baryon p) [] (calls s) = ((xs, history), r)"
    by (metis surj_pair)
  with n have hist: "history = calls s @ new" by simp
  show ?case
  proof (cases r)
    case None
    let ?s1 = "s\<lparr>calls := history, Tb_hubble := (Tb_hubble s)(h \<mapsto> NdArray xs)\<rparr>"
    from Cons.IH [of ?s1] obtain new' where
      n': "calls (fst (hubble_sweep T_b g p hs ?s1)) = history @ new'"
      and a': "\<forall>c\<in>set new'. box c = 50 \<and> redshift c \<in> set g \<and>
        hubble c \<in> set hs \<and> matter c = matter p \<and> baryon c = baryon p"
      by auto
    from sl None n' hist
    have "calls (fst (hubble_sweep T_b g p (h # hs) s)) = calls s @ (new @ new')"
      by simp
    moreover from a a' have "\<forall>c\<in>set (new @ new'). box c = 50 \<and> redshift c \<in> set g \<and>
        hubble c \<in> set (h # hs) \<and> matter c = matter p \<and> baryon c = baryon p"
      by auto
    ultimately show ?thesis by blast
  next
    case (Some e)
    with sl hist have "calls (fst (hubble_sweep T_b g p (h # hs) s)) = calls s @ new"
      by simp
    moreover from a have "\<forall>c\<in>set new. box c = 50 \<and> redshift c \<in> set g \<and>
        hubble c \<in> set (h # hs) \<and> matter c = matter p \<and> baryon c = baryon p"
      by auto
    ultimately show ?thesis by blast
  qed
qed

lemma matter_sweep_calls:
  "\<exists>new. calls (fst (matter_sweep T_b g p ms s)) = calls s @ new \<and>
     (\<forall>c\<in>set new. box c = 50 \<and> redshift c \<in> set g \<and>
        hubble c = hubble p \<and> matter c \<in> set ms \<and> baryon c = baryon p)"
proof (induction ms arbitrary: s)
  case Nil
  show ?case by simp
next
  case (Cons m ms)
  obtain new where n: "snd (fst (sweep_loop T_b g (hubble p) m (baryon p) [] (calls s)))
      = calls s @ new"
    and a: "\<forall>c\<in>set new. box c = 50 \<and> redshift c \<in> set g \<and>
        hubble c = hubble p \<and> matter c = m \<and> baryon c = baryon p"
    by (rule sweep_loop_new_calls)
  obtain xs history r where sl:
    "sweep_loop T_b g (hubble p) m (baryon p) [] (calls s) = ((xs, history), r)"
    by (metis surj_pair)
  with n have hist: "history = calls s @ new" by simp
  show ?case
  proof (cases r)
    case None
    let ?s1 = "s\<lparr>calls := history, Tb_matter := (Tb_matter s)(m \<mapsto> NdArray xs)\<rparr>"
    from Cons.IH [of ?s1] obtain new' where
      n': "calls (fst (matter_sweep T_b g p ms ?s1)) = history @ new'"
      and a': "\<forall>c\<in>set new'. box c = 50 \<and> redshift c \<in> set g \<and>
        hubble c = hubble p \<and> matter c \<in> set ms \<and> baryon c = baryon p"
      by auto
    from sl None n' hist
    have "calls (fst (matter_sweep T_b g p (m # ms) s)) = calls s @ (new @ new')"
      by simp
    moreover from a a' have "\<forall>c\<in>set (new @ new'). box c = 50 \<and> redshift c \<in> set g \<and>
        hubble c = hubble p \<and> matter c \<in> set (m # ms) \<and> baryon c = baryon p"
      by auto
    ultimately show ?thesis by blast
  next
    case (Some e)
    with sl hist have "calls (fst (matter_sweep T_b g p (m # ms) s)) = calls s @ new"
      by simp
    moreover from a have "\<forall>c\<in>set new. box c = 50 \<and> redshift c \<in> set g \<and>
        hubble c = hubble p \<and> matter c \<in> set (m # ms) \<and> baryon c = baryon p"
      by auto
    ultimately show ?thesis by blast
  qed
qed

lemma baryon_sweep_calls:
  "\<exists>new. calls (fst (baryon_sweep T_b g p bs s)) = calls s @ new \<and>
     (\<forall>c\<in>set new. box c = 50 \<and> redshift c \<in> set g \<and>
        hubble c = hubble p \<and> matter c = matter p \<and> baryon c \<in> set bs)"
proof (induction bs arbitrary: s)
  case Nil
  show ?case by simp
next
  case (Cons b bs)
  obtain new where n: "snd (fst (sweep_loop T_b g (hubble p) (matter p) b [] (calls s)))
      = calls s @ new"
    and a: "\<forall>c\<in>set new. box c = 50 \<and> redshift c \<in> set g \<and>
        hubble c = hubble p \<and> matter c = matter p \<and> baryon c = b"
    by (rule sweep_loop_new_calls)
  obtain xs history r where sl:
    "sweep_loop T_b g (hubble p) (matter p) b [] (calls s) = ((xs, history), r)"
    by (metis surj_pair)
  with n have hist: "history = calls s @ new" by simp
  show ?case
  proof (cases r)
    case None
    let ?s1 = "s\<lparr>calls := history, Tb_baryon := (Tb_baryon s)(b \<mapsto> NdArray xs)\<rparr>"
    from Cons.IH [of ?s1] obtain new' where
      n': "calls (fst (baryon_sweep T_b g p bs ?s1)) = history @ new'"
      and a': "\<forall>c\<in>set new'. box c = 50 \<and> redshift c \<in> set g \<and>
        hubble c = hubble p \<and> matter c = matter p \<and> baryon c \<in> set bs"
      by auto
    from sl None n' hist
    have "calls (fst (baryon_sweep T_b g p (b # bs) s)) = calls s @ (new @ new')"
      by simp
    moreover from a a' have "\<forall>c\<in>set (new @ new'). box c = 50 \<and> redshift c \<in> set g \<and>
        hubble c = hubble p \<and> matter c = matter p \<and> baryon c \<in> set (b # bs)"
      by auto
    ultimately show ?thesis by blast
  next
    case (Some e)
    with sl hist have "calls (fst (baryon_sweep T_b g p (b # bs) s)) = calls s @ new"
      by simp
    moreover from a have "\<forall>c\<in>set new. box c = 50 \<and> redshift c \<in> set g \<and>
        hubble c = hubble p \<and> matter c = matter p \<and> baryon c \<in> set (b # bs)"
      by auto
    ultimately show ?thesis by blast
  qed
qed

section \<open>Sweeps in which no call raises\<close>

lemma std_sweep_ok:
  assumes "\<forall>zr\<in>set g. \<not> isl (T_b (kwargs zr (hubble p) (matter p) (baryon p)))"
  shows "std_sweep T_b g p s =
     (s\<lparr>calls := calls s @ map (\<lambda>zr. kwargs zr (hubble p) (matter p) (baryon p)) g,
        Tb_std := Some (NdArray
          (map (\<lambda>zr. np_mean (projr (T_b (kwargs zr (hubble p) (matter p) (baryon p))))) g))\<rparr>,
      None)"
  by (simp add: std_sweep_def sweep_loop_ok [OF assms])

lemma hubble_sweep_ok:
  assumes "\<forall>h\<in>set hs. \<forall>zr\<in>set g. \<not> isl (T_b (kwargs zr h (matter p) (baryon p)))"
  shows "hubble_sweep T_b g p hs s =
     (s\<lparr>calls := calls s @
          concat (map (\<lambda>h. map (\<lambda>zr. kwargs zr h (matter p) (baryon p)) g) hs),
        Tb_hubble := (\<lambda>k. if k \<in> set hs
          then Some (NdArray
            (map (\<lambda>zr. np_mean (projr (T_b (kwargs zr k (matter p) (baryon p))))) g))
          else Tb_hubble s k)\<rparr>,
      None)"
  using assms
proof (induction hs arbitrary: s)
  case Nil
  show ?case by simp
next
  case (Cons h hs)
  from Cons.prems have here: "\<forall>zr\<in>set g. \<not> isl (T_b (kwargs zr h (matter p) (baryon p)))"
    and later: "\<forall>h\<in>set hs. \<forall>zr\<in>set g. \<not> isl (T_b (kwargs zr h (matter p) (baryon p)))"
    by simp_all
  show ?case
    by (simp add: sweep_loop_ok [OF here] Cons.IH [OF later] fun_eq_iff)
qed

lemma matter_sweep_ok:
  assumes "\<forall>m\<in>set ms. \<forall>zr\<in>set g. \<not> isl (T_b (kwargs zr (hubble p) m (baryon p)))"
  shows "matter_sweep T_b g p ms s =
     (s\<lparr>calls := calls s @
          concat (map (\<lambda>m. map (\<lambda>zr. kwargs zr (hubble p) m (baryon p)) g) ms),
        Tb_matter := (\<lambda>k. if k \<in> set ms
          then Some (NdArray
            (map (\<lambda>zr. np_mean (projr (T_b (kwargs zr (hubble p) k (baryon p))))) g))
          else Tb_matter s k)\<rparr>,
      None)"
  using assms
proof (induction ms arbitrary: s)
  case Nil
  show ?case by simp
next
  case (Cons m ms)
  from Cons.prems have here: "\<forall>zr\<in>set g. \<not> isl (T_b (kwargs zr (hubble p) m (baryon p)))"
    and later: "\<forall>m\<in>set ms. \<forall>zr\<in>set g. \<not> isl (T_b (kwargs zr (hubble p) m (baryon p)))"
    by simp_all
  show ?case
    by (simp add: sweep_loop_ok [OF here] Cons.IH [OF later] fun_eq_iff)
qed

lemma baryon_sweep_ok:
  assumes "\<forall>b\<in>set bs. \<forall>zr\<in>set g. \<not> isl (T_b (kwargs zr (hubble p) (matter p) b))"
  shows "baryon_sweep T_b g p bs s =
     (s\<lparr>calls := calls s @
          concat (map (\<lambda>b. map (\<lambda>zr. kwargs zr (hubble p) (matter p) b) g) bs),
        Tb_baryon := (\<lambda>k. if k \<in> set bs
          then Some (NdArray
            (map (\<lambda>zr. np_mean (projr (T_b (kwargs zr (hubble p) (matter p) k)))) g))
          else Tb_baryon s k)\<rparr>,
      None)"
  using assms
proof (induction bs arbitrary: s)
  case Nil
  show ?case by simp
next
  case (Cons b bs)
  from Cons.prems have here: "\<forall>zr\<in>set g. \<not> isl (T_b (kwargs zr (hubble p) (matter p) b))"
    and later: "\<forall>b\<in>set bs. \<forall>zr\<in>set g. \<not> isl (T_b (kwargs zr (hubble p) (matter p) b))"
    by simp_all
  show ?case
    by (simp add: sweep_loop_ok [OF here] Cons.IH [OF later] fun_eq_iff)
qed

lemma hubble_sweep_append:
  "hubble_sweep T_b g p (hs @ hs') s =
     (case hubble_sweep T_b g p hs s of
        (s1, Some e) \<Rightarrow> (s1, Some e)
      | (s1, None) \<Rightarrow> hubble_sweep T_b g p hs' s1)"
proof (induction hs arbitrary: s)
  case Nil
  show ?case by simp
next
  case (Cons h hs)
  obtain xs history r where sl:
    "sweep_loop T_b g h (matter p) (baryon p) [] (calls s) = ((xs, history), r)"
    by (metis surj_pair)
  show ?case
    by (cases r) (simp_all add: sl Cons.IH)
qed

section \<open>The standard sweep\<close>

text \<open>
  C1: when \<open>T_b\<close> returns a field at every redshift of the grid for the parameters \<open>p\<close>,
  the sweep of lines 30 to 37 runs to its end and leaves in \<open>Tb_std\<close> an array with one
  element for each redshift of the grid, in the order of the grid: the element at index
  \<open>i\<close> is the mean temperature that \<open>calculate_mean_temperature\<close> returns for the
  redshift at index \<open>i\<close>.
\<close>

theorem std_sweep_aligned:
  assumes "\<forall>zr\<in>set grid. \<exists>bt. T_b (kwargs zr (hubble p) (matter p) (baryon p)) = Inr bt"
  shows "\<exists>s' xs. std_sweep T_b grid p s = (s', None) \<and> Tb_std s' = Some (NdArray xs) \<and>
           length xs = length grid \<and>
           (\<forall>i<length grid. \<forall>history.
              snd (calculate_mean_temperature T_b (grid ! i) (hubble p) (matter p) (baryon p)
                history) = Inr (xs ! i))"
proof -
  let ?xs = "map (\<lambda>zr. np_mean (projr (T_b (kwargs zr (hubble p) (matter p) (baryon p))))) grid"
  let ?s' = "s\<lparr>calls := calls s @ map (\<lambda>zr. kwargs zr (hubble p) (matter p) (baryon p)) grid,
        Tb_std := Some (NdArray ?xs)\<rparr>"
  from assms have ok: "\<forall>zr\<in>set grid. \<not> isl (T_b (kwargs zr (hubble p) (matter p) (baryon p)))"
    by auto
  have run: "std_sweep T_b grid p s = (?s', None)"
    by (rule std_sweep_ok [OF ok])
  have pt: "snd (calculate_mean_temperature T_b (grid ! i) (hubble p) (matter p) (baryon p)
      history) = Inr (?xs ! i)" if "i < length grid" for i history
  proof -
    from that have "grid ! i \<in> set grid" by simp
    with assms obtain bt
      where "T_b (kwargs (grid ! i) (hubble p) (matter p) (baryon p)) = Inr bt"
      by blast
    then show ?thesis using that by (simp add: calculate_mean_temperature_def)
  qed
  have "Tb_std ?s' = Some (NdArray ?xs)" and "length ?xs = length grid"
    by simp_all
  with run pt show ?thesis by blast
qed

theorem std_sweep_aligned_witness:
  "\<exists>s' xs. std_sweep (\<lambda>c. Inr [Fin (redshift c)] :: unit + npfloat list) [30, 20, 10]
        std_params initial = (s', None) \<and>
     Tb_std s' = Some (NdArray xs) \<and> length xs = 3 \<and> xs ! 1 = Fin 20"
proof -
  let ?T = "\<lambda>c. Inr [Fin (redshift c)] :: unit + npfloat list"
  have h: "\<forall>zr\<in>set [30, 20, 10]. \<exists>bt.
      ?T (kwargs zr (hubble std_params) (matter std_params) (baryon std_params)) = Inr bt"
    by simp
  from std_sweep_aligned [of "[30, 20, 10]" ?T std_params initial, OF h]
  obtain s' xs where run: "std_sweep ?T [30, 20, 10] std_params initial = (s', None)"
    and std: "Tb_std s' = Some (NdArray xs)"
    and len: "length xs = length [30 :: real, 20, 10]"
    and pt: "\<forall>i<length [30 :: real, 20, 10]. \<forall>history.
       snd (calculate_mean_temperature ?T ([30, 20, 10] ! i) (hubble std_params)
         (matter std_params) (baryon std_params) history) = Inr (xs ! i)"
    by blast
  have "(1 :: nat) < length [30 :: real, 20, 10]" by simp
  with pt have "snd (calculate_mean_temperature ?T ([30, 20, 10] ! 1) (hubble std_params)
         (matter std_params) (baryon std_params) []) = Inr (xs ! 1)"
    by blast
  then have "xs ! 1 = Fin 20"
    by (simp add: calculate_mean_temperature_def kwargs_def np_mean_def np_sum_def)
  with run std len show ?thesis by simp
qed

section \<open>The sweeps of the three parameters\<close>

text \<open>
  C7: every call that the sweep of one parameter makes to \<open>T_b\<close> has a value of that
  parameter's list in the place of that parameter, and the values of \<open>std_params\<close> for the
  other two parameters; this holds for the three sweeps. When no call raises, the calls of
  a sweep are exactly one call for every value of the list and every redshift of the grid,
  value by value and in the order of the grid.
\<close>

theorem axis_sweeps_frame:
  "(\<exists>new. calls (fst (hubble_sweep T_b grid p hs s)) = calls s @ new \<and>
      (\<forall>c\<in>set new. hubble c \<in> set hs \<and> matter c = matter p \<and> baryon c = baryon p)) \<and>
   (\<exists>new. calls (fst (matter_sweep T_b grid p ms s)) = calls s @ new \<and>
      (\<forall>c\<in>set new. hubble c = hubble p \<and> matter c \<in> set ms \<and> baryon c = baryon p)) \<and>
   (\<exists>new. calls (fst (baryon_sweep T_b grid p bs s)) = calls s @ new \<and>
      (\<forall>c\<in>set new. hubble c = hubble p \<and> matter c = matter p \<and> baryon c \<in> set bs)) \<and>
   ((\<forall>h\<in>set hs. \<forall>zr\<in>set grid. \<not> isl (T_b (kwargs zr h (matter p) (baryon p)))) \<longrightarrow>
      calls (fst (hubble_sweep T_b grid p hs s)) = calls s @
        concat (map (\<lambda>h. map (\<lambda>zr. kwargs zr h (matter p) (baryon p)) grid) hs)) \<and>
   ((\<forall>m\<in>set ms. \<forall>zr\<in>set grid. \<not> isl (T_b (kwargs zr (hubble p) m (baryon p)))) \<longrightarrow>
      calls (fst (matter_sweep T_b grid p ms s)) = calls s @
        concat (map (\<lambda>m. map (\<lambda>zr. kwargs zr (hubble p) m (baryon p)) grid) ms)) \<and>
   ((\<forall>b\<in>set bs. \<forall>zr\<in>set grid. \<not> isl (T_b (kwargs zr (hubble p) (matter p) b))) \<longrightarrow>
      calls (fst (baryon_sweep T_b grid p bs s)) = calls s @
        concat (map (\<lambda>b. map (\<lambda>zr. kwargs zr (hubble p) (matter p) b) grid) bs))"
proof (intro conjI impI)
  show "\<exists>new. calls (fst (hubble_sweep T_b grid p hs s)) = calls s @ new \<and>
      (\<forall>c\<in>set new. hubble c \<in> set hs \<and> matter c = matter p \<and> baryon c = baryon p)"
    using hubble_sweep_calls [of T_b grid p hs s] by blast
  show "\<exists>new. calls (fst (matter_sweep T_b grid p ms s)) = calls s @ new \<and>
      (\<forall>c\<in>set new. hubble c = hubble p \<and> matter c \<in> set ms \<and> baryon c = baryon p)"
    using matter_sweep_calls [of T_b grid p ms s] by blast
  show "\<exists>new. calls (fst (baryon_sweep T_b grid p bs s)) = calls s @ new \<and>
      (\<forall>c\<in>set new. hubble c = hubble p \<and> matter c = matter p \<and> baryon c \<in> set bs)"
    using baryon_sweep_calls [of T_b grid p bs s] by blast
next
  assume "\<forall>h\<in>set hs. \<forall>zr\<in>set grid. \<not> isl (T_b (kwargs zr h (matter p) (baryon p)))"
  then show "calls (fst (hubble_sweep T_b grid p hs s)) = calls s @
        concat (map (\<lambda>h. map (\<lambda>zr. kwargs zr h (matter p) (baryon p)) grid) hs)"
    by (simp add: hubble_sweep_ok)
next
  assume "\<forall>m\<in>set ms. \<forall>zr\<in>set grid. \<not> isl (T_b (kwargs zr (hubble p) m (baryon p)))"
  then show "calls (fst (matter_sweep T_b grid p ms s)) = calls s @
        concat (map (\<lambda>m. map (\<lambda>zr. kwargs zr (hubble p) m (baryon p)) grid) ms)"
    by (simp add: matter_sweep_ok)
next
  assume "\<forall>b\<in>set bs. \<forall>zr\<in>set grid. \<not> isl (T_b (kwargs zr (hubble p) (matter p) b))"
  then show "calls (fst (baryon_sweep T_b grid p bs s)) = calls s @
        concat (map (\<lambda>b. map (\<lambda>zr. kwargs zr (hubble p) (matter p) b) grid) bs)"
    by (simp add: baryon_sweep_ok)
qed

theorem axis_sweeps_frame_witness:
  "calls (fst (hubble_sweep (\<lambda>c. Inr [Fin 10] :: unit + npfloat list) [30, 20] std_params
      [67 / 100] initial))
     = [kwargs 30 (67 / 100) (31 / 100) (2 / 100), kwargs 20 (67 / 100) (31 / 100) (2 / 100)]"
proof -
  let ?T = "\<lambda>c :: call. Inr [Fin 10] :: unit + npfloat list"
  have h: "\<forall>h\<in>set [67 / 100]. \<forall>zr\<in>set [30, 20].
      \<not> isl (?T (kwargs zr h (matter std_params) (baryon std_params)))"
    by simp
  note inst = axis_sweeps_frame [of ?T "[30, 20]" std_params "[67 / 100]" initial "[]" "[]"]
  from inst have "(\<forall>h\<in>set [67 / 100]. \<forall>zr\<in>set [30, 20].
      \<not> isl (?T (kwargs zr h (matter std_params) (baryon std_params)))) \<longrightarrow>
    calls (fst (hubble_sweep ?T [30, 20] std_params [67 / 100] initial)) = calls initial @
      concat (map (\<lambda>h. map (\<lambda>zr. kwargs zr h (matter std_params) (baryon std_params)) [30, 20])
        [67 / 100])"
    by (elim conjE)
  with h have "calls (fst (hubble_sweep ?T [30, 20] std_params [67 / 100] initial))
      = calls initial @
      concat (map (\<lambda>h. map (\<lambda>zr. kwargs zr h (matter std_params) (baryon std_params)) [30, 20])
        [67 / 100])"
    by (rule rev_mp)
  then show ?thesis by (simp add: initial_def std_params_def)
qed

lemma std_sweep_box:
  assumes "\<forall>c\<in>set (calls s). box c = 50"
  shows "\<forall>c\<in>set (calls (fst (std_sweep T_b g p s))). box c = 50"
  using std_sweep_calls [of T_b g p s] assms by auto

lemma hubble_sweep_box:
  assumes "\<forall>c\<in>set (calls s). box c = 50"
  shows "\<forall>c\<in>set (calls (fst (hubble_sweep T_b g p hs s))). box c = 50"
  using hubble_sweep_calls [of T_b g p hs s] assms by auto

lemma matter_sweep_box:
  assumes "\<forall>c\<in>set (calls s). box c = 50"
  shows "\<forall>c\<in>set (calls (fst (matter_sweep T_b g p ms s))). box c = 50"
  using matter_sweep_calls [of T_b g p ms s] assms by auto

lemma baryon_sweep_box:
  assumes "\<forall>c\<in>set (calls s). box c = 50"
  shows "\<forall>c\<in>set (calls (fst (baryon_sweep T_b g p bs s))). box c = 50"
  using baryon_sweep_calls [of T_b g p bs s] assms by auto

lemma study_box: "\<forall>c\<in>set (calls (fst (study T_b grid p hs ms bs))). box c = 50"
proof -
  obtain s1 r1 where 1: "std_sweep T_b grid p initial = (s1, r1)"
    by (metis surj_pair)
  have "\<forall>c\<in>set (calls initial). box c = 50" by (simp add: initial_def)
  from std_sweep_box [OF this, of T_b grid p] 1
  have b1: "\<forall>c\<in>set (calls s1). box c = 50" by simp
  obtain s2 r2 where 2: "hubble_sweep T_b grid p hs (s1\<lparr>Tb_hubble := Map.empty\<rparr>) = (s2, r2)"
    by (metis surj_pair)
  from b1 have "\<forall>c\<in>set (calls (s1\<lparr>Tb_hubble := Map.empty\<rparr>)). box c = 50" by simp
  from hubble_sweep_box [OF this, of T_b grid p hs] 2
  have b2: "\<forall>c\<in>set (calls s2). box c = 50" by simp
  obtain s3 r3 where 3: "matter_sweep T_b grid p ms (s2\<lparr>Tb_matter := Map.empty\<rparr>) = (s3, r3)"
    by (metis surj_pair)
  from b2 have "\<forall>c\<in>set (calls (s2\<lparr>Tb_matter := Map.empty\<rparr>)). box c = 50" by simp
  from matter_sweep_box [OF this, of T_b grid p ms] 3
  have b3: "\<forall>c\<in>set (calls s3). box c = 50" by simp
  from b3 have "\<forall>c\<in>set (calls (s3\<lparr>Tb_baryon := Map.empty\<rparr>)). box c = 50" by simp
  from baryon_sweep_box [OF this, of T_b grid p bs]
  have b4: "\<forall>c\<in>set (calls (fst (baryon_sweep T_b grid p bs (s3\<lparr>Tb_baryon := Map.empty\<rparr>)))).
      box c = 50" .
  show ?thesis
    using 1 2 3 b1 b2 b3 b4
    by (cases r1; cases r2; cases r3) (simp_all add: study_def)
qed

text \<open>
  C10: every call to \<open>T_b\<close> made by the sweeps of the script (the standard sweep and the
  sweeps of the three parameters, at every redshift) has the argument \<open>box\<close> equal to
  50, for any grid, any parameters and any lists of values, and so for those of the
  script.
\<close>

theorem every_call_box_50:
  "(\<forall>c\<in>set (calls (fst (study T_b grid p hs ms bs))). box c = 50) \<and>
   (\<forall>c\<in>set (calls (fst (script T_b))). box c = 50)"
  unfolding script_def by (intro conjI study_box)

theorem every_call_box_50_witness:
  "kwargs 30 (69 / 100) (31 / 100) (2 / 100)
     \<in> set (calls (fst (study (\<lambda>c. Inr [Fin 10] :: unit + npfloat list) [30] std_params
          [67 / 100] [] []))) \<and>
   box (kwargs 30 (69 / 100) (31 / 100) (2 / 100)) = 50"
proof -
  let ?T = "\<lambda>c :: call. Inr [Fin 10] :: unit + npfloat list"
  have mem: "kwargs 30 (69 / 100) (31 / 100) (2 / 100)
     \<in> set (calls (fst (study ?T [30] std_params [67 / 100] [] [])))"
    by (simp add: study_def std_sweep_def calculate_mean_temperature_def std_params_def
        initial_def)
  from every_call_box_50 [of ?T "[30]" std_params "[67 / 100]" "[]" "[]"]
  have "\<forall>c\<in>set (calls (fst (study ?T [30] std_params [67 / 100] [] []))). box c = 50"
    by (rule conjunct1)
  with mem show ?thesis by blast
qed



text \<open>
  A run in which \<open>T_b\<close> raises for \<open>hubble = 0.71\<close> at the second of three redshifts:
  the exception ends the script, and \<open>Tb_hubble[0.71]\<close> is left as the list of the one
  mean computed before, next to the two finished arrays.
\<close>

theorem hubble_sweep_failure_counterexample:
  "study (\<lambda>c. if hubble c = 71 / 100 \<and> redshift c = 20
              then Inl ''SimulationError'' else Inr [Fin 10])
      [30, 20, 10] std_params hubble_variations matter_variations baryon_variations
   = (\<lparr>calls = map (\<lambda>zr. kwargs zr (69 / 100) (31 / 100) (2 / 100)) [30, 20, 10] @
               map (\<lambda>zr. kwargs zr (67 / 100) (31 / 100) (2 / 100)) [30, 20, 10] @
               map (\<lambda>zr. kwargs zr (69 / 100) (31 / 100) (2 / 100)) [30, 20, 10] @
               map (\<lambda>zr. kwargs zr (71 / 100) (31 / 100) (2 / 100)) [30, 20],
       Tb_std = Some (NdArray [Fin 10, Fin 10, Fin 10]),
       Tb_hubble = [67 / 100 \<mapsto> NdArray [Fin 10, Fin 10, Fin 10],
                    69 / 100 \<mapsto> NdArray [Fin 10, Fin 10, Fin 10],
                    71 / 100 \<mapsto> PyList [Fin 10]],
       Tb_matter = Map.empty, Tb_baryon = Map.empty\<rparr>,
      Some ''SimulationError'')"
  by (simp add: study_def std_sweep_def calculate_mean_temperature_def std_params_def
      hubble_variations_def initial_def kwargs_def np_mean_def np_sum_def)

text \<open>
  C8, as the script behaves: when \<open>T_b\<close> raises at a redshift during the sweep of a
  value \<open>h\<close> of \<open>hubble_variations\<close> (the values before \<open>h\<close> and the redshifts before that
  one having raised nothing), the exception leaves the whole sweep and reaches the
  caller, the failing call is the last call made (no later redshift and no later value is
  evaluated), and the entry of \<open>h\<close> is never turned into an array. The entry of \<open>h\<close> is
  not removed, though: \<open>Tb_hubble[h]\<close> stays bound to the list of the means computed
  before the failure, which is shorter than the grid, and the entries of the values
  before \<open>h\<close> stay the finished arrays.
\<close>

theorem hubble_sweep_failure:
  assumes "\<forall>h'\<in>set prev. \<forall>zr\<in>set (pre @ zf # post).
      \<not> isl (T_b (kwargs zr h' (matter p) (baryon p)))"
    and "\<forall>zr\<in>set pre. \<not> isl (T_b (kwargs zr h (matter p) (baryon p)))"
    and "T_b (kwargs zf h (matter p) (baryon p)) = Inl e"
  shows "\<exists>s'. hubble_sweep T_b (pre @ zf # post) p (prev @ h # rest) s = (s', Some e) \<and>
     calls s' = calls s @
       concat (map (\<lambda>h'. map (\<lambda>zr. kwargs zr h' (matter p) (baryon p)) (pre @ zf # post)) prev) @
       map (\<lambda>zr. kwargs zr h (matter p) (baryon p)) (pre @ [zf]) \<and>
     Tb_hubble s' h = Some (PyList
       (map (\<lambda>zr. np_mean (projr (T_b (kwargs zr h (matter p) (baryon p))))) pre)) \<and>
     length pre < length (pre @ zf # post) \<and>
     (\<forall>k. k \<noteq> h \<longrightarrow> Tb_hubble s' k =
        (if k \<in> set prev
         then Some (NdArray (map (\<lambda>zr. np_mean (projr (T_b (kwargs zr k (matter p) (baryon p)))))
           (pre @ zf # post)))
         else Tb_hubble s k)) \<and>
     Tb_std s' = Tb_std s \<and> Tb_matter s' = Tb_matter s \<and> Tb_baryon s' = Tb_baryon s"
  by (simp add: hubble_sweep_append hubble_sweep_ok [OF assms(1)]
      sweep_loop_fail [OF assms(2,3)])

theorem hubble_sweep_failure_witness:
  "\<exists>s'. hubble_sweep (\<lambda>c. if hubble c = 71 / 100 \<and> redshift c = 20
              then Inl ''SimulationError'' else Inr [Fin 10])
      [30, 20, 10] std_params hubble_variations initial = (s', Some ''SimulationError'') \<and>
     Tb_hubble s' (71 / 100) = Some (PyList [Fin 10]) \<and>
     Tb_hubble s' (69 / 100) = Some (NdArray [Fin 10, Fin 10, Fin 10]) \<and>
     length (calls s') = 8"
proof -
  let ?T = "\<lambda>c. if hubble c = 71 / 100 \<and> redshift c = 20
              then Inl ''SimulationError'' else Inr [Fin 10]"
  have h1: "\<forall>h'\<in>set [67 / 100, 69 / 100]. \<forall>zr\<in>set ([30] @ 20 # [10]).
      \<not> isl (?T (kwargs zr h' (matter std_params) (baryon std_params)))"
    by (simp add: kwargs_def)
  have h2: "\<forall>zr\<in>set [30]. \<not> isl (?T (kwargs zr (71 / 100) (matter std_params) (baryon std_params)))"
    by (simp add: kwargs_def)
  have h3: "?T (kwargs 20 (71 / 100) (matter std_params) (baryon std_params))
      = Inl ''SimulationError''"
    by (simp add: kwargs_def)
  from hubble_sweep_failure [of "[67 / 100, 69 / 100]" "[30]" 20 "[10]" ?T std_params
      "71 / 100" "''SimulationError''" "[]" initial, OF h1 h2 h3]
  show ?thesis
    by (auto simp: hubble_variations_def kwargs_def np_mean_def np_sum_def initial_def)
qed

end
